theory Spec2Isabelle
  imports Complex_Main "HOL-Library.Sublist"
begin

section \<open>Python strings\<close>

text \<open>
  Python \<open>str\<close> values are modelled as \<open>string\<close> (lists of 8-bit characters) and are read
  as ASCII text. The helpers below are the string methods the audited modules call.
\<close>

definition is_space :: "char \<Rightarrow> bool" where
  \<comment> \<open>\<open>str.isspace\<close> on ASCII: TAB, LF, VT, FF, CR, FS, GS, RS, US and the space.\<close>
  "is_space c = (let n = (of_char c :: nat) in (9 \<le> n \<and> n \<le> 13) \<or> (28 \<le> n \<and> n \<le> 32))"

definition lower_char :: "char \<Rightarrow> char" where
  "lower_char c = (let n = (of_char c :: nat) in if 65 \<le> n \<and> n \<le> 90 then char_of (n + 32) else c)"

definition lower :: "string \<Rightarrow> string" where
  \<comment> \<open>\<open>str.lower()\<close>\<close>
  "lower s = map lower_char s"

definition strip :: "string \<Rightarrow> string" where
  \<comment> \<open>\<open>str.strip()\<close>: leading and trailing whitespace removed.\<close>
  "strip s = rev (dropWhile is_space (rev (dropWhile is_space s)))"

definition is_linebreak :: "char \<Rightarrow> bool" where
  \<comment> \<open>the ASCII line boundaries of \<open>str.splitlines\<close>: LF, VT, FF, CR, FS, GS, RS.\<close>
  "is_linebreak c = (let n = (of_char c :: nat) in (10 \<le> n \<and> n \<le> 13) \<or> (28 \<le> n \<and> n \<le> 30))"

fun splitlines_acc :: "string \<Rightarrow> string \<Rightarrow> string list" where
  "splitlines_acc acc [] = (if acc = [] then [] else [rev acc])"
| "splitlines_acc acc [c] = (if is_linebreak c then [rev acc] else [rev (c # acc)])"
| "splitlines_acc acc (c # d # cs) =
     (if c = CHR 0x0D \<and> d = CHR 0x0A then rev acc # splitlines_acc [] cs
      else if is_linebreak c then rev acc # splitlines_acc [] (d # cs)
      else splitlines_acc (c # acc) (d # cs))"

definition splitlines :: "string \<Rightarrow> string list" where
  \<comment> \<open>\<open>str.splitlines()\<close>: CR LF is one boundary, no empty last line.\<close>
  "splitlines s = splitlines_acc [] s"

definition partition_colon :: "string \<Rightarrow> string \<times> string" where
  \<comment> \<open>\<open>line.partition(":")\<close> for a line that holds a colon: the text before the first
      colon and the text after it.\<close>
  "partition_colon s = (takeWhile (\<lambda>c. c \<noteq> CHR '':'') s, drop 1 (dropWhile (\<lambda>c. c \<noteq> CHR '':'') s))"

section \<open>Robots gate (crawler/robots.py)\<close>

record robots_rule =
  agent :: string
  path :: string

datatype robots_parse_error =
    InvalidLineNoColon string        \<comment> \<open>\<open>"Invalid line (no colon): ..."\<close>\<close>
  | InvalidCrawlDelay string         \<comment> \<open>\<open>"Invalid crawl-delay value: ..."\<close>\<close>
  | RobotsHttpStatus int             \<comment> \<open>\<open>"robots.txt returned HTTP ..."\<close>\<close>
  | RobotsFetchFailed string         \<comment> \<open>\<open>"Failed to fetch robots.txt: ..."\<close>\<close>

record robots_data =
  rd_url :: string
  rd_exists :: bool
  rd_status_code :: int
  raw_text :: string
  sitemap_urls :: "string list"
  disallow_rules :: "robots_rule list"
  allow_rules :: "robots_rule list"
  crawl_delay :: "rat option"
  rd_parse_errors :: "robots_parse_error list"

definition new_robots_data :: "string \<Rightarrow> bool \<Rightarrow> robots_data" where
  \<comment> \<open>\<open>RobotsData(url=..., exists=...)\<close> with the dataclass defaults.\<close>
  "new_robots_data u e =
     \<lparr>rd_url = u, rd_exists = e, rd_status_code = 0, raw_text = [], sitemap_urls = [],
      disallow_rules = [], allow_rules = [], crawl_delay = None, rd_parse_errors = []\<rparr>"

text \<open>
  The loop state of \<open>_parse_robots\<close>: the record being filled and the two loop variables.
\<close>

record robots_parse_state =
  ps_data :: robots_data
  current_agents :: "string list"
  in_agent_block :: bool

text \<open>
  One iteration of the \<open>for raw_line in data.raw_text.splitlines()\<close> loop. \<open>float_of\<close> is
  Python's \<open>float(value)\<close>: \<open>None\<close> where it raises \<open>ValueError\<close>.
\<close>

definition parse_robots_line ::
  "(string \<Rightarrow> rat option) \<Rightarrow> robots_parse_state \<Rightarrow> string \<Rightarrow> robots_parse_state" where
  "parse_robots_line float_of st raw_line =
    (let line = strip raw_line in
     if line = [] \<or> prefix ''#'' line then
       (if line = [] \<and> in_agent_block st
        then st\<lparr>current_agents := [], in_agent_block := False\<rparr>
        else st)
     else if CHR '':'' \<notin> set line then
       st\<lparr>ps_data := (ps_data st)\<lparr>rd_parse_errors :=
             rd_parse_errors (ps_data st) @ [InvalidLineNoColon line]\<rparr>\<rparr>
     else
       (let directive = lower (strip (fst (partition_colon line)));
            val = strip (snd (partition_colon line)) in
        if directive = ''user-agent'' then
          (let st1 = (if \<not> in_agent_block st
                      then st\<lparr>current_agents := [], in_agent_block := True\<rparr> else st)
           in st1\<lparr>current_agents := current_agents st1 @ [val]\<rparr>)
        else if directive = ''disallow'' then
          st\<lparr>in_agent_block := True,
             ps_data := (ps_data st)\<lparr>disallow_rules := disallow_rules (ps_data st) @
                map (\<lambda>a. \<lparr>agent = a, path = val\<rparr>) (current_agents st)\<rparr>\<rparr>
        else if directive = ''allow'' then
          st\<lparr>in_agent_block := True,
             ps_data := (ps_data st)\<lparr>allow_rules := allow_rules (ps_data st) @
                map (\<lambda>a. \<lparr>agent = a, path = val\<rparr>) (current_agents st)\<rparr>\<rparr>
        else if directive = ''crawl-delay'' then
          (case float_of val of
             Some d \<Rightarrow> st\<lparr>ps_data := (ps_data st)\<lparr>crawl_delay := Some d\<rparr>\<rparr>
           | None \<Rightarrow> st\<lparr>ps_data := (ps_data st)\<lparr>rd_parse_errors :=
                        rd_parse_errors (ps_data st) @ [InvalidCrawlDelay val]\<rparr>\<rparr>)
        else if directive = ''sitemap'' then
          (if val \<noteq> [] then
             st\<lparr>ps_data := (ps_data st)\<lparr>sitemap_urls := sitemap_urls (ps_data st) @ [val]\<rparr>\<rparr>
           else st)
        else st))"

definition parse_robots_lines ::
  "(string \<Rightarrow> rat option) \<Rightarrow> robots_parse_state \<Rightarrow> string list \<Rightarrow> robots_parse_state" where
  "parse_robots_lines float_of st ls = foldl (parse_robots_line float_of) st ls"

definition robots_parse_init :: "robots_data \<Rightarrow> robots_parse_state" where
  \<comment> \<open>\<open>current_agents = []\<close>, \<open>in_agent_block = False\<close> before the loop.\<close>
  "robots_parse_init d = \<lparr>ps_data = d, current_agents = [], in_agent_block = False\<rparr>"

definition parse_robots :: "(string \<Rightarrow> rat option) \<Rightarrow> robots_data \<Rightarrow> robots_data" where
  \<comment> \<open>\<open>_parse_robots(data)\<close>: the mutated record is returned.\<close>
  "parse_robots float_of d =
     ps_data (parse_robots_lines float_of (robots_parse_init d) (splitlines (raw_text d)))"

text \<open>
  The directive name the dispatch of \<open>_parse_robots\<close> sees for a raw line: \<open>None\<close> for a
  blank line, a comment and a line without a colon, which never reach the dispatch.
\<close>

definition robots_directive :: "string \<Rightarrow> string option" where
  "robots_directive raw_line =
     (let line = strip raw_line in
      if line = [] \<or> prefix ''#'' line \<or> CHR '':'' \<notin> set line then None
      else Some (lower (strip (fst (partition_colon line)))))"










definition orphan_robots_text :: robots_data where
  \<comment> \<open>a group, the blank line that closes it, then a Disallow with no User-agent.\<close>
  "orphan_robots_text =
     (new_robots_data ''https://example.com/robots.txt'' True)
       \<lparr>raw_text := ''User-agent: *\<newline>Disallow: /a\<newline>\<newline>Disallow: /secret\<newline>Sitemap: https://example.com/s.xml''\<rparr>"

text \<open>
  The parser's loop keeps \<open>current_agents\<close> empty whenever no group is open, so a blank
  line always leaves it empty.
\<close>

definition block_inv :: "robots_parse_state \<Rightarrow> bool" where
  "block_inv s \<longleftrightarrow> (\<not> in_agent_block s \<longrightarrow> current_agents s = [])"

definition agents_sim :: "robots_parse_state \<Rightarrow> robots_parse_state \<Rightarrow> bool" where
  "agents_sim s t \<longleftrightarrow> ps_data s = ps_data t \<and> current_agents s = current_agents t \<and>
     (in_agent_block s = in_agent_block t \<or> current_agents s = [])"

text \<open>
  The dispatch of \<open>_parse_robots\<close> read in two steps: the kind of a raw line, which
  depends on the line alone, and the effect of a line of that kind on the loop state.
  \<open>parse_robots_line\<close> above is the loop body as written; the two are proved equal below.
\<close>

datatype robots_line_kind =
    BlankLine | CommentLine | NoColonLine string | UserAgentLine string | DisallowLine string
  | AllowLine string | CrawlDelayLine string | SitemapLine string | OtherLine

definition robots_line_kind :: "string \<Rightarrow> robots_line_kind" where
  "robots_line_kind raw_line =
    (let line = strip raw_line in
     if line = [] then BlankLine
     else if prefix ''#'' line then CommentLine
     else if CHR '':'' \<notin> set line then NoColonLine line
     else
       (let directive = lower (strip (fst (partition_colon line)));
            val = strip (snd (partition_colon line)) in
        if directive = ''user-agent'' then UserAgentLine val
        else if directive = ''disallow'' then DisallowLine val
        else if directive = ''allow'' then AllowLine val
        else if directive = ''crawl-delay'' then CrawlDelayLine val
        else if directive = ''sitemap'' then SitemapLine val
        else OtherLine))"

fun robots_line_effect ::
  "(string \<Rightarrow> rat option) \<Rightarrow> robots_line_kind \<Rightarrow> robots_parse_state \<Rightarrow> robots_parse_state" where
  "robots_line_effect f BlankLine st =
     (if in_agent_block st then st\<lparr>current_agents := [], in_agent_block := False\<rparr> else st)"
| "robots_line_effect f CommentLine st = st"
| "robots_line_effect f (NoColonLine line) st =
     st\<lparr>ps_data := (ps_data st)\<lparr>rd_parse_errors :=
           rd_parse_errors (ps_data st) @ [InvalidLineNoColon line]\<rparr>\<rparr>"
| "robots_line_effect f (UserAgentLine val) st =
     (if \<not> in_agent_block st then st\<lparr>current_agents := [val], in_agent_block := True\<rparr>
      else st\<lparr>current_agents := current_agents st @ [val]\<rparr>)"
| "robots_line_effect f (DisallowLine val) st =
     st\<lparr>in_agent_block := True,
        ps_data := (ps_data st)\<lparr>disallow_rules := disallow_rules (ps_data st) @
           map (\<lambda>a. \<lparr>agent = a, path = val\<rparr>) (current_agents st)\<rparr>\<rparr>"
| "robots_line_effect f (AllowLine val) st =
     st\<lparr>in_agent_block := True,
        ps_data := (ps_data st)\<lparr>allow_rules := allow_rules (ps_data st) @
           map (\<lambda>a. \<lparr>agent = a, path = val\<rparr>) (current_agents st)\<rparr>\<rparr>"
| "robots_line_effect f (CrawlDelayLine val) st =
     (case f val of
        Some d \<Rightarrow> st\<lparr>ps_data := (ps_data st)\<lparr>crawl_delay := Some d\<rparr>\<rparr>
      | None \<Rightarrow> st\<lparr>ps_data := (ps_data st)\<lparr>rd_parse_errors :=
                   rd_parse_errors (ps_data st) @ [InvalidCrawlDelay val]\<rparr>\<rparr>)"
| "robots_line_effect f (SitemapLine val) st =
     (if val \<noteq> [] then
        st\<lparr>ps_data := (ps_data st)\<lparr>sitemap_urls := sitemap_urls (ps_data st) @ [val]\<rparr>\<rparr>
      else st)"
| "robots_line_effect f OtherLine st = st"

definition orphan_robots_text2 :: robots_data where
  \<comment> \<open>a closed group, then a comment, an orphan Allow, a Sitemap line and a second orphan
      Disallow, then a new group.\<close>
  "orphan_robots_text2 =
     (new_robots_data ''https://example.com/robots.txt'' True)
       \<lparr>raw_text := ''User-agent: *\<newline>Disallow: /a\<newline>\<newline># note\<newline>Allow: /x\<newline>Sitemap: https://example.com/s.xml\<newline>Disallow: /secret\<newline>User-agent: bot\<newline>Disallow: /b''\<rparr>"

section \<open>Page records (models.py)\<close>

record link_data =
  link_url :: string
  anchor_text :: string
  nofollow :: bool
  link_status_code :: int
  is_broken :: bool

text \<open>
  \<open>PageData\<close>, with the fields the fetcher, the content step of the parser and the crawl
  loop read or write. \<open>response_time_ms\<close> is wall-clock time and is left out.
\<close>

record page_data =
  url :: string
  status_code :: int
  content_type :: string
  page_size_bytes :: int
  redirect_chain :: "string list"
  final_url :: string
  response_headers :: "(string \<times> string) list"
  crawl_error :: "string option"
  is_html :: bool
  html :: string
  word_count :: nat
  text_content :: string
  content_hash :: string
  internal_links :: "link_data list"
  external_links :: "link_data list"
  is_indexable :: bool
  x_robots_tag :: "string option"
  depth :: nat

definition new_page :: "string \<Rightarrow> page_data" where
  \<comment> \<open>\<open>PageData(url=url)\<close> with the dataclass defaults.\<close>
  "new_page u =
     \<lparr>url = u, status_code = 0, content_type = [], page_size_bytes = 0, redirect_chain = [],
      final_url = [], response_headers = [], crawl_error = None, is_html = True, html = [],
      word_count = 0, text_content = [], content_hash = [], internal_links = [],
      external_links = [], is_indexable = True, x_robots_tag = None, depth = 0\<rparr>"

section \<open>Fetcher (crawler/fetcher.py)\<close>

text \<open>
  A response of the HTTP client: the status, the client's \<open>is_redirect\<close> property, the
  response URL, the headers (names in lower case, as the client's case-insensitive
  dictionary looks them up), the decoded body and the length of the raw body.
  \<open>session.get\<close> either returns a response or raises; \<open>Raises msg\<close> carries \<open>str(exc)\<close>.
\<close>

record response =
  resp_status_code :: int
  resp_is_redirect :: bool
  resp_url :: string
  resp_headers :: "(string \<times> string) list"
  resp_text :: string
  resp_content_length :: nat

datatype get_result = Raises string | Returns response

definition header_get :: "response \<Rightarrow> string \<Rightarrow> string" where
  \<comment> \<open>\<open>resp.headers.get(name, "")\<close>\<close>
  "header_get r name = (case map_of (resp_headers r) name of None \<Rightarrow> [] | Some v \<Rightarrow> v)"

definition MAX_REDIRECTS :: nat where
  "MAX_REDIRECTS = 10"

definition redirect_status :: "int \<Rightarrow> bool" where
  \<comment> \<open>\<open>resp.status_code in (301, 302, 303, 307, 308)\<close>\<close>
  "redirect_status c \<longleftrightarrow> c \<in> {301, 302, 303, 307, 308}"

text \<open>
  The \<open>for _ in range(_MAX_REDIRECTS)\<close> loop of \<open>_follow_redirects\<close>, by recursion on the
  iterations left. \<open>urljoin\<close> is the standard library's; \<open>get\<close> is
  \<open>session.get(current_url, ..., allow_redirects=False)\<close>. The state is the page being
  filled and the list of URLs requested so far (the effect of the calls of \<open>get\<close>).
  Falling out of the loop, and the \<open>break\<close> on an empty Location, return \<open>None\<close>.
\<close>

fun follow_loop ::
  "nat \<Rightarrow> (string \<Rightarrow> string \<Rightarrow> string) \<Rightarrow> (string \<Rightarrow> get_result) \<Rightarrow> string \<Rightarrow> string set \<Rightarrow>
     page_data \<times> string list \<Rightarrow> response option \<times> page_data \<times> string list" where
  "follow_loop 0 urljoin get current_url seen_urls (page, sent) = (None, page, sent)"
| "follow_loop (Suc n) urljoin get current_url seen_urls (page, sent) =
     (case get current_url of
        Raises msg \<Rightarrow>
          (None, page\<lparr>crawl_error := Some msg, status_code := 0\<rparr>, sent @ [current_url])
      | Returns resp \<Rightarrow>
          if resp_is_redirect resp \<or> redirect_status (resp_status_code resp) then
            (let location = header_get resp ''location'' in
             if location = [] then (None, page, sent @ [current_url])
             else
               (let next_url = urljoin current_url location;
                    page1 = page\<lparr>redirect_chain := redirect_chain page @ [current_url]\<rparr>
                in if next_url \<in> seen_urls \<or> next_url = current_url then
                     (Some resp,
                      page1\<lparr>crawl_error := Some ''Redirect loop detected'',
                            status_code := resp_status_code resp\<rparr>,
                      sent @ [current_url])
                   else follow_loop n urljoin get next_url (insert current_url seen_urls)
                          (page1, sent @ [current_url])))
          else (Some resp, page, sent @ [current_url]))"

definition follow_redirects ::
  "(string \<Rightarrow> string \<Rightarrow> string) \<Rightarrow> (string \<Rightarrow> get_result) \<Rightarrow> string \<Rightarrow> page_data \<Rightarrow>
     response option \<times> page_data \<times> string list" where
  "follow_redirects urljoin get u page = follow_loop MAX_REDIRECTS urljoin get u {} (page, [])"

text \<open>
  \<open>fetch_page\<close>. Every exception of \<open>session.get\<close> is caught inside \<open>_follow_redirects\<close>,
  so the only statement of the \<open>try\<close> block that can raise is
  \<open>int(resp.headers.get("content-length", 0) or 0)\<close>: \<open>int_of\<close> is Python's \<open>int\<close> on a
  string, \<open>Inl msg\<close> where it raises \<open>ValueError(msg)\<close>, and the handler that catches it is
  \<open>except Exception\<close>. The result is the page and the URLs requested.
\<close>

definition fetch_page ::
  "(string \<Rightarrow> string \<Rightarrow> string) \<Rightarrow> (string \<Rightarrow> string + int) \<Rightarrow> (string \<Rightarrow> get_result) \<Rightarrow>
     string \<Rightarrow> nat \<Rightarrow> bool \<Rightarrow> page_data \<times> string list" where
  "fetch_page urljoin int_of get u d head_only =
     (let page = (new_page u)\<lparr>final_url := u, depth := d\<rparr> in
      case follow_redirects urljoin get u page of
        (None, page1, sent) \<Rightarrow> (page1, sent)
      | (Some resp, page1, sent) \<Rightarrow>
          (let ctype = lower (header_get resp ''content-type'');
               page2 = page1\<lparr>status_code := resp_status_code resp, final_url := resp_url resp,
                              response_headers := resp_headers resp, content_type := ctype\<rparr>;
               x_robots = header_get resp ''x-robots-tag'';
               page3 = (if x_robots \<noteq> [] then
                          page2\<lparr>x_robots_tag := Some x_robots,
                                is_indexable := (if sublist ''noindex'' (lower x_robots) then False
                                                 else is_indexable page2)\<rparr>
                        else page2)
           in if sublist ''text/html'' ctype then
                (page3\<lparr>is_html := True, html := resp_text resp,
                        page_size_bytes := int (resp_content_length resp)\<rparr>, sent)
              else if \<not> head_only then
                (let page4 = page3\<lparr>is_html := False\<rparr>;
                     cl = header_get resp ''content-length''
                 in if cl = [] then (page4\<lparr>page_size_bytes := 0\<rparr>, sent)
                    else (case int_of cl of
                            Inr n \<Rightarrow> (page4\<lparr>page_size_bytes := n\<rparr>, sent)
                          | Inl msg \<Rightarrow>
                              (page4\<lparr>crawl_error := Some (''Unexpected error: '' @ msg),
                                     status_code := 0\<rparr>, sent)))
              else (page3, sent)))"

text \<open>Servers for the examples. Every Location is an absolute URL, which \<open>urljoin\<close> returns.\<close>

definition urljoin_abs :: "string \<Rightarrow> string \<Rightarrow> string" where
  "urljoin_abs base location = location"

definition redirect_to :: "string \<Rightarrow> string \<Rightarrow> (string \<times> string) list \<Rightarrow> get_result" where
  \<comment> \<open>a 302 from \<open>u\<close> to \<open>target\<close> with further headers \<open>hs\<close>\<close>
  "redirect_to u target hs =
     Returns \<lparr>resp_status_code = 302, resp_is_redirect = True, resp_url = u,
              resp_headers = (''location'', target) # hs, resp_text = [], resp_content_length = 0\<rparr>"

definition endless_server :: "string \<Rightarrow> get_result" where
  \<comment> \<open>every URL redirects to a longer, new URL: no loop\<close>
  "endless_server u = redirect_to u (u @ ''/next'') []"



definition int_of_digits :: "string \<Rightarrow> string + int" where
  \<comment> \<open>Python's \<open>int\<close> on the strings of the examples: a run of decimal digits is its value,
      \<open>abc\<close> raises.\<close>
  "int_of_digits s =
     (if s \<noteq> [] \<and> list_all (\<lambda>c. 48 \<le> (of_char c :: nat) \<and> (of_char c :: nat) \<le> 57) s
      then Inr (foldl (\<lambda>a c. 10 * a + (int (of_char c) - 48)) 0 s)
      else Inl (''invalid literal for int() with base 10: '' @ [CHR 0x27] @ s @ [CHR 0x27]))"


section \<open>Parser, content step (crawler/parser.py)\<close>

text \<open>
  \<open>collapse_ws\<close> is \<open>re.sub(r"\s+", " ", text)\<close>: every run of whitespace becomes one space.
  \<open>split_ws\<close> is \<open>text.split()\<close>.
\<close>

fun collapse_acc :: "bool \<Rightarrow> string \<Rightarrow> string" where
  "collapse_acc in_ws [] = []"
| "collapse_acc in_ws (c # cs) =
     (if is_space c then (if in_ws then collapse_acc True cs else CHR '' '' # collapse_acc True cs)
      else c # collapse_acc False cs)"

definition collapse_ws :: "string \<Rightarrow> string" where
  "collapse_ws s = collapse_acc False s"

fun split_acc :: "string \<Rightarrow> string \<Rightarrow> string list" where
  "split_acc acc [] = (if acc = [] then [] else [rev acc])"
| "split_acc acc (c # cs) =
     (if is_space c then (if acc = [] then split_acc [] cs else rev acc # split_acc [] cs)
      else split_acc (c # acc) cs)"

definition split_ws :: "string \<Rightarrow> string list" where
  "split_ws s = split_acc [] s"

text \<open>
  \<open>_parse_content\<close> from the point where the visible text has been extracted: \<open>visible\<close> is
  the result of \<open>get_text(separator=" ", strip=True)\<close> of the HTML library, and \<open>md5\<close> is
  \<open>hashlib.md5(s.encode("utf-8")).hexdigest()\<close>.
\<close>

definition parse_content :: "(string \<Rightarrow> string) \<Rightarrow> string \<Rightarrow> page_data \<Rightarrow> page_data" where
  "parse_content md5 visible page =
     (let text = strip (collapse_ws visible);
          normalized = lower text
      in page\<lparr>text_content := text,
              word_count := (if text \<noteq> [] then length (split_ws text) else 0),
              content_hash := md5 normalized\<rparr>)"

text \<open>
  The normalization in the specification's words: whitespace collapsed to single spaces,
  and lower-cased.
\<close>

definition normalized_text :: "string \<Rightarrow> string" where
  "normalized_text v = lower (collapse_ws v)"

definition shout_text :: string where
  "shout_text = ''hello'' @ [CHR 0x09, CHR 0x0A] @ ''WORLD''"

(*DEFS*)

section \<open>Properties of the robots gate\<close>










text \<open>The loop body is the effect of the line's kind.\<close>

lemma parse_robots_line_effect:
  "parse_robots_line f st l = robots_line_effect f (robots_line_kind l) st"
  unfolding parse_robots_line_def robots_line_kind_def Let_def
  by simp

lemma robots_directive_kind:
  "robots_directive l = Some d \<Longrightarrow> d = ''allow'' \<Longrightarrow> \<exists>v. robots_line_kind l = AllowLine v"
  "robots_directive l = Some d \<Longrightarrow> d = ''disallow'' \<Longrightarrow> \<exists>v. robots_line_kind l = DisallowLine v"
  unfolding robots_directive_def robots_line_kind_def Let_def
  by (simp_all split: if_splits)

lemma robots_directive_not_agent:
  "robots_directive l \<noteq> Some ''user-agent'' \<Longrightarrow> \<forall>v. robots_line_kind l \<noteq> UserAgentLine v"
  unfolding robots_directive_def robots_line_kind_def Let_def
  by (auto split: if_splits)

lemma effect_block_inv: "block_inv s \<Longrightarrow> block_inv (robots_line_effect f k s)"
  by (cases k) (auto simp: block_inv_def split: option.splits)

lemma effect_agents_sim:
  "agents_sim s t \<Longrightarrow> agents_sim (robots_line_effect f k s) (robots_line_effect f k t)"
  by (cases k) (auto simp: agents_sim_def split: option.splits)

lemma effect_keeps_no_agents:
  "current_agents s = [] \<Longrightarrow> \<forall>v. k \<noteq> UserAgentLine v \<Longrightarrow>
     current_agents (robots_line_effect f k s) = []"
  by (cases k) (auto split: option.splits)

lemma effect_orphan:
  assumes "current_agents s = []" "k = AllowLine v \<or> k = DisallowLine v"
  shows "ps_data (robots_line_effect f k s) = ps_data s"
    and "current_agents (robots_line_effect f k s) = []"
  using assms by auto

lemma effect_blank:
  assumes "block_inv s"
  shows "current_agents (robots_line_effect f BlankLine s) = []"
  using assms by (auto simp: block_inv_def)

lemma strip_blank_kind: "strip b = [] \<Longrightarrow> robots_line_kind b = BlankLine"
  by (simp add: robots_line_kind_def)

lemma lines_block_inv: "block_inv s \<Longrightarrow> block_inv (parse_robots_lines f s ls)"
  unfolding parse_robots_lines_def
  by (induction ls arbitrary: s) (simp_all add: parse_robots_line_effect effect_block_inv)

lemma lines_agents_sim:
  "agents_sim s t \<Longrightarrow> agents_sim (parse_robots_lines f s ls) (parse_robots_lines f t ls)"
  unfolding parse_robots_lines_def
  by (induction ls arbitrary: s t) (simp_all add: parse_robots_line_effect effect_agents_sim)

lemma lines_keep_no_agents:
  "current_agents s = [] \<Longrightarrow> \<forall>m \<in> set ms. robots_directive m \<noteq> Some ''user-agent'' \<Longrightarrow>
     current_agents (parse_robots_lines f s ms) = []"
  unfolding parse_robots_lines_def
proof (induction ms arbitrary: s)
  case Nil
  then show ?case by simp
next
  case (Cons m ms)
  have "current_agents (parse_robots_line f s m) = []"
    using Cons.prems robots_directive_not_agent [of m]
    by (simp add: parse_robots_line_effect effect_keeps_no_agents)
  then show ?case using Cons by simp
qed

lemma parse_robots_lines_append:
  "parse_robots_lines f s (xs @ ys) = parse_robots_lines f (parse_robots_lines f s xs) ys"
  by (simp add: parse_robots_lines_def)

lemma parse_robots_lines_single:
  "parse_robots_lines f s [l] = parse_robots_line f s l"
  by (simp add: parse_robots_lines_def)

text \<open>
  C9 (as amended). When an Allow or Disallow directive follows a group-closing blank line
  with no User-agent line in between (any other lines may lie between them),
  \<open>_parse_robots\<close> adds no rule and records no parse error for it: the record after the
  directive is the record before it. The rest of the file is still parsed, and the result
  is the one the text gives with that directive line left out.
\<close>

theorem parse_robots_orphan_directive:
  assumes lines: "splitlines (raw_text d) = pre @ [blank] @ mid @ [dline] @ rest"
      and blank: "strip blank = []"
      and mid: "\<forall>m \<in> set mid. robots_directive m \<noteq> Some ''user-agent''"
      and dir: "robots_directive dline = Some ''allow'' \<or> robots_directive dline = Some ''disallow''"
  shows "ps_data (parse_robots_lines f (robots_parse_init d) (pre @ [blank] @ mid @ [dline]))
           = ps_data (parse_robots_lines f (robots_parse_init d) (pre @ [blank] @ mid))
         \<and> parse_robots f d
           = ps_data (parse_robots_lines f (robots_parse_init d) (pre @ [blank] @ mid @ rest))"
proof -
  let ?s0 = "parse_robots_lines f (robots_parse_init d) pre"
  let ?s1 = "parse_robots_line f ?s0 blank"
  let ?s2 = "parse_robots_lines f ?s1 mid"
  let ?s3 = "parse_robots_line f ?s2 dline"
  have inv0: "block_inv ?s0"
    by (rule lines_block_inv) (simp add: block_inv_def robots_parse_init_def)
  have ag1: "current_agents ?s1 = []"
    using effect_blank [OF inv0] strip_blank_kind [OF blank]
    by (simp add: parse_robots_line_effect)
  have ag2: "current_agents ?s2 = []"
    using lines_keep_no_agents [OF ag1 mid] .
  obtain v where kind: "robots_line_kind dline = AllowLine v \<or> robots_line_kind dline = DisallowLine v"
    using dir robots_directive_kind [of dline] by blast
  have same: "ps_data ?s3 = ps_data ?s2"
    using effect_orphan(1) [OF ag2 kind] by (simp add: parse_robots_line_effect)
  have ag3: "current_agents ?s3 = []"
    using effect_orphan(2) [OF ag2 kind] by (simp add: parse_robots_line_effect)
  have sim: "agents_sim ?s3 ?s2"
    using same ag2 ag3 by (simp add: agents_sim_def)
  have rest: "ps_data (parse_robots_lines f ?s3 rest) = ps_data (parse_robots_lines f ?s2 rest)"
    using lines_agents_sim [OF sim, of f rest] by (simp add: agents_sim_def)
  have a: "parse_robots_lines f (robots_parse_init d) (pre @ [blank] @ mid @ [dline]) = ?s3"
    by (simp add: parse_robots_lines_def)
  have b: "parse_robots_lines f (robots_parse_init d) (pre @ [blank] @ mid) = ?s2"
    by (simp add: parse_robots_lines_def)
  have c: "parse_robots f d = ps_data (parse_robots_lines f ?s3 rest)"
    by (simp add: parse_robots_def lines parse_robots_lines_def)
  have d: "parse_robots_lines f (robots_parse_init d) (pre @ [blank] @ mid @ rest)
             = parse_robots_lines f ?s2 rest"
    by (simp add: parse_robots_lines_def)
  show ?thesis
    using same rest by (simp only: a b c d simp_thms)
qed

lemma orphan_text2_lines:
  "splitlines (raw_text orphan_robots_text2) =
     [''User-agent: *'', ''Disallow: /a''] @ [[]] @
     [''# note'', ''Allow: /x'', ''Sitemap: https://example.com/s.xml''] @
     [''Disallow: /secret''] @ [''User-agent: bot'', ''Disallow: /b'']"
  by code_simp

lemma strip_empty_line: "strip [] = []"
  by code_simp

lemma orphan_text2_mid:
  "\<forall>m \<in> set [''# note'', ''Allow: /x'', ''Sitemap: https://example.com/s.xml''].
      robots_directive m \<noteq> Some ''user-agent''"
  by code_simp

lemma orphan_text2_directive: "robots_directive ''Disallow: /secret'' = Some ''disallow''"
  by code_simp

theorem parse_robots_orphan_directive_witness:
  "parse_robots (\<lambda>_. None) orphan_robots_text2 =
     orphan_robots_text2
       \<lparr>disallow_rules := [\<lparr>agent = ''*'', path = ''/a''\<rparr>, \<lparr>agent = ''bot'', path = ''/b''\<rparr>],
        sitemap_urls := [''https://example.com/s.xml'']\<rparr>"
proof -
  have r: "ps_data (parse_robots_lines (\<lambda>_. None) (robots_parse_init orphan_robots_text2)
        ([''User-agent: *'', ''Disallow: /a''] @ [[]] @
         [''# note'', ''Allow: /x'', ''Sitemap: https://example.com/s.xml''] @
         [''User-agent: bot'', ''Disallow: /b'']))
      = orphan_robots_text2
       \<lparr>disallow_rules := [\<lparr>agent = ''*'', path = ''/a''\<rparr>, \<lparr>agent = ''bot'', path = ''/b''\<rparr>],
        sitemap_urls := [''https://example.com/s.xml'']\<rparr>"
    by code_simp
  have dir: "robots_directive ''Disallow: /secret'' = Some ''allow''
             \<or> robots_directive ''Disallow: /secret'' = Some ''disallow''"
    using orphan_text2_directive by simp
  show ?thesis
    using parse_robots_orphan_directive
            [OF orphan_text2_lines strip_empty_line orphan_text2_mid dir, of "\<lambda>_. None"] r
    by (simp only:)
qed

text \<open>
  C9 as stated fails: the orphan \<open>Disallow: /secret\<close> of the example text leaves
  \<open>parse_errors\<close> empty, so no parse error is recorded for it.
\<close>

theorem parse_robots_orphan_no_error:
  "rd_parse_errors (parse_robots (\<lambda>_. None) orphan_robots_text) = []"
  by code_simp

section \<open>Properties of the fetcher\<close>

















text \<open>
  C6, the failing input. Every URL of \<open>endless_server\<close> redirects to a new URL, so no loop
  is detected. \<open>fetch_page\<close> stops after ten requests with \<open>status_code = 0\<close>, but the
  page's \<open>crawl_error\<close> is \<open>None\<close>: falling out of the loop of \<open>_follow_redirects\<close> returns
  \<open>None\<close> without storing an error, and \<open>fetch_page\<close> returns the page as it is.
\<close>

theorem fetch_page_too_many_redirects_unclassified:
  "crawl_error (fst (fetch_page urljoin_abs int_of_digits endless_server ''https://example.com/r'' 0 False)) = None
   \<and> status_code (fst (fetch_page urljoin_abs int_of_digits endless_server ''https://example.com/r'' 0 False)) = 0
   \<and> length (snd (fetch_page urljoin_abs int_of_digits endless_server ''https://example.com/r'' 0 False)) = 10
   \<and> length (redirect_chain (fst (fetch_page urljoin_abs int_of_digits endless_server ''https://example.com/r'' 0 False))) = 10"
  by code_simp

section \<open>Properties of the content hash\<close>

lemma is_space_lower_char: "is_space (lower_char c) = is_space c"
  unfolding is_space_def lower_char_def Let_def
  by (auto simp: of_char_of [where ?'a = nat])

lemma dropWhile_space_map:
  "dropWhile is_space (map lower_char xs) = map lower_char (dropWhile is_space xs)"
  by (induction xs) (simp_all add: is_space_lower_char)

lemma strip_lower: "strip (lower s) = lower (strip s)"
  unfolding strip_def lower_def
  by (simp add: rev_map dropWhile_space_map)

lemma content_hash_normalized:
  "content_hash (parse_content md5 v p) = md5 (strip (normalized_text v))"
  by (simp add: parse_content_def normalized_text_def Let_def strip_lower)


text \<open>
  C8. Two pages whose visible texts are identical after normalization (whitespace
  collapsed to single spaces, lower-cased) get equal content hashes, whatever else the
  pages hold: the hash is \<open>md5\<close> of the trimmed normalized text and of nothing else.
\<close>

theorem content_hash_invariant:
  "(normalized_text v1 = normalized_text v2 \<longrightarrow>
      content_hash (parse_content md5 v1 p1) = content_hash (parse_content md5 v2 p2))
   \<and> content_hash (parse_content md5 v1 p1) = md5 (strip (normalized_text v1))"
  by (simp add: content_hash_normalized)

lemma ex_norm: "normalized_text ''Hello   World'' = normalized_text shout_text"
  by code_simp

theorem content_hash_invariant_witness:
  "normalized_text ''Hello   World'' = normalized_text shout_text
   \<and> content_hash (parse_content md5 ''Hello   World'' (new_page ''https://example.com/a''))
     = content_hash (parse_content md5 shout_text (new_page ''https://example.com/b''))"
  using mp [OF conjunct1 [OF content_hash_invariant [of "''Hello   World''" shout_text md5
        "new_page ''https://example.com/a''" "new_page ''https://example.com/b''"]] ex_norm] ex_norm
  by (rule conjI [rotated])

(*PROPERTIES*)

end
